theory Spec2Isabelle
  imports Complex_Main "HOL-Library.Sublist" "HOL-Library.Char_ord" "HOL-Library.List_Lexorder"
begin

section \<open>Values of the JavaScript runtime\<close>

text \<open>
  A parsed JSON document, as \<open>response.json()\<close> returns it. A number is the value of the
  double it parses to; an object is the list of its properties, each key once (\<open>map_of\<close>
  reads one). Strings are byte strings: a character outside ASCII is its UTF-8 bytes.
\<close>

datatype json =
    JNull
  | JBool bool
  | JNum real
  | JStr string
  | JArr "json list"
  | JObj "(string \<times> json) list"

text \<open>
  A field declared \<open>Date\<close> holds a Date object (milliseconds since the epoch) when the
  store action created it with \<open>new Date()\<close>, and a string once the state has been read
  back from storage.
\<close>

datatype jsdate = DateObj nat | DateStr string

text \<open>
  \<open>String(n)\<close> of a non-negative integer below \<open>10^21\<close>, such as \<open>Date.now()\<close>: its
  decimal digits.
\<close>

definition digit_char :: "nat \<Rightarrow> char" where
  "digit_char d = ''0123456789'' ! d"

fun string_of_nat :: "nat \<Rightarrow> string" where
  "string_of_nat n =
     (if n < 10 then [digit_char n] else string_of_nat (n div 10) @ [digit_char (n mod 10)])"

declare string_of_nat.simps [simp del]

section \<open>The chat store (store/chat-store.ts)\<close>

datatype role = User | Assistant

record metadata =
  md_type :: "string option"
  md_loading :: "bool option"
  md_error :: "json option"
  md_orchestratorData :: "json option"

record ChatMessage =
  msg_id :: string
  msg_content :: json
  msg_role :: role
  msg_timestamp :: jsdate
  msg_agentId :: "string option"
  msg_metadata :: "metadata option"

record ChatSession =
  ses_id :: string
  ses_title :: string
  ses_messages :: "ChatMessage list"
  ses_createdAt :: jsdate
  ses_updatedAt :: jsdate
  ses_agentId :: string

record ChatStore =
  currentSession :: "ChatSession option"
  sessions :: "ChatSession list"
  isLoading :: bool

text \<open>\<open>Omit<ChatMessage, 'id' | 'timestamp'>\<close>, the argument of \<open>addMessage\<close>.\<close>

record MessageData =
  data_content :: json
  data_role :: role
  data_agentId :: "string option"
  data_metadata :: "metadata option"

text \<open>
  \<open>Partial<ChatMessage>\<close>, the argument of \<open>updateMessage\<close>: \<open>None\<close> is a key the object
  does not have. For the two optional fields of a message the key may be there with the
  value \<open>undefined\<close> (\<open>Some None\<close>).
\<close>

record MessageUpdates =
  upd_id :: "string option"
  upd_content :: "json option"
  upd_role :: "role option"
  upd_timestamp :: "jsdate option"
  upd_agentId :: "string option option"
  upd_metadata :: "metadata option option"

definition initialChatStore :: ChatStore where
  "initialChatStore = \<lparr>currentSession = None, sessions = [], isLoading = False\<rparr>"

text \<open>
  The store actions read the clock; each reading is an argument, in the order the action
  takes them (\<open>Date.now()\<close> first, then each \<open>new Date()\<close>). \<open>localeDate\<close> stands for
  \<open>toLocaleDateString\<close>, which depends on the browser's locale.
\<close>

definition createSession ::
  "(nat \<Rightarrow> string) \<Rightarrow> nat \<Rightarrow> nat \<Rightarrow> nat \<Rightarrow> nat \<Rightarrow> string \<Rightarrow> ChatStore \<Rightarrow> ChatStore" where
  "createSession localeDate now t_title t_created t_updated agentId st =
     (let newSession =
        \<lparr>ses_id = ''session_'' @ string_of_nat now,
         ses_title = ''New Chat - '' @ localeDate t_title,
         ses_messages = [],
         ses_createdAt = DateObj t_created,
         ses_updatedAt = DateObj t_updated,
         ses_agentId = agentId\<rparr>
      in st\<lparr>currentSession := Some newSession, sessions := newSession # sessions st\<rparr>)"

definition setCurrentSession :: "string \<Rightarrow> ChatStore \<Rightarrow> ChatStore" where
  "setCurrentSession sessionId st =
     (case find (\<lambda>s. ses_id s = sessionId) (sessions st) of
        Some session \<Rightarrow> st\<lparr>currentSession := Some session\<rparr>
      | None \<Rightarrow> st)"

definition newMessage :: "nat \<Rightarrow> nat \<Rightarrow> MessageData \<Rightarrow> ChatMessage" where
  "newMessage now t_stamp messageData =
     \<lparr>msg_id = ''msg_'' @ string_of_nat now,
      msg_content = data_content messageData,
      msg_role = data_role messageData,
      msg_timestamp = DateObj t_stamp,
      msg_agentId = data_agentId messageData,
      msg_metadata = data_metadata messageData\<rparr>"

definition addMessage :: "nat \<Rightarrow> nat \<Rightarrow> nat \<Rightarrow> MessageData \<Rightarrow> ChatStore \<Rightarrow> ChatStore" where
  "addMessage now t_stamp t_updated messageData st =
     (case currentSession st of
        None \<Rightarrow> st
      | Some cur \<Rightarrow>
          (let updatedSession =
             cur\<lparr>ses_messages := ses_messages cur @ [newMessage now t_stamp messageData],
                 ses_updatedAt := DateObj t_updated\<rparr>
           in st\<lparr>currentSession := Some updatedSession,
                  sessions := map (\<lambda>s. if ses_id s = ses_id cur then updatedSession else s)
                                  (sessions st)\<rparr>))"

text \<open>\<open>{ ...msg, ...updates }\<close>: every key of \<open>updates\<close> replaces the message's.\<close>

definition applyUpdates :: "ChatMessage \<Rightarrow> MessageUpdates \<Rightarrow> ChatMessage" where
  "applyUpdates msg updates =
     \<lparr>msg_id = (case upd_id updates of None \<Rightarrow> msg_id msg | Some v \<Rightarrow> v),
      msg_content = (case upd_content updates of None \<Rightarrow> msg_content msg | Some v \<Rightarrow> v),
      msg_role = (case upd_role updates of None \<Rightarrow> msg_role msg | Some v \<Rightarrow> v),
      msg_timestamp = (case upd_timestamp updates of None \<Rightarrow> msg_timestamp msg | Some v \<Rightarrow> v),
      msg_agentId = (case upd_agentId updates of None \<Rightarrow> msg_agentId msg | Some v \<Rightarrow> v),
      msg_metadata = (case upd_metadata updates of None \<Rightarrow> msg_metadata msg | Some v \<Rightarrow> v)\<rparr>"

definition updateMessage :: "nat \<Rightarrow> string \<Rightarrow> MessageUpdates \<Rightarrow> ChatStore \<Rightarrow> ChatStore" where
  "updateMessage t_updated messageId updates st =
     (case currentSession st of
        None \<Rightarrow> st
      | Some cur \<Rightarrow>
          (let updatedSession =
             cur\<lparr>ses_messages :=
                   map (\<lambda>msg. if msg_id msg = messageId then applyUpdates msg updates else msg)
                       (ses_messages cur),
                 ses_updatedAt := DateObj t_updated\<rparr>
           in st\<lparr>currentSession := Some updatedSession,
                  sessions := map (\<lambda>s. if ses_id s = ses_id cur then updatedSession else s)
                                  (sessions st)\<rparr>))"

definition clearSessions :: "ChatStore \<Rightarrow> ChatStore" where
  "clearSessions st = st\<lparr>currentSession := None, sessions := []\<rparr>"

text \<open>
  \<open>state.currentSession?.id === sessionId\<close> is false when there is no current session:
  \<open>undefined\<close> is not a string.
\<close>

definition deleteSession :: "string \<Rightarrow> ChatStore \<Rightarrow> ChatStore" where
  "deleteSession sessionId st =
     st\<lparr>sessions := filter (\<lambda>s. ses_id s \<noteq> sessionId) (sessions st),
        currentSession :=
          (case currentSession st of
             None \<Rightarrow> None
           | Some cur \<Rightarrow> if ses_id cur = sessionId then None else Some cur)\<rparr>"

definition setLoading :: "bool \<Rightarrow> ChatStore \<Rightarrow> ChatStore" where
  "setLoading loading st = st\<lparr>isLoading := loading\<rparr>"

subsection \<open>Persistence\<close>

text \<open>
  The store is wrapped in \<open>persist\<close>, zustand's middleware, with the name \<open>chat-storage\<close>
  and \<open>partialize\<close>, and with no storage of its own. The middleware then keeps the
  partialized state in the browser's \<open>localStorage\<close> as JSON text: \<open>JSON.stringify\<close> writes
  it after every change, \<open>JSON.parse\<close> reads it when the store is created again, and what
  was read replaces the fields of the same name in the initial state.
\<close>

record PersistedState =
  p_sessions :: "ChatSession list"
  p_currentSession :: "ChatSession option"

definition partialize :: "ChatStore \<Rightarrow> PersistedState" where
  "partialize state = \<lparr>p_sessions = sessions state, p_currentSession = currentSession state\<rparr>"

text \<open>
  \<open>Date.prototype.toISOString\<close> of a valid date (at most 8 640 000 000 000 000 ms after the
  epoch, which every \<open>new Date()\<close> is): the UTC calendar date of the day number, then the
  time of day. A year beyond 9999 is written with a sign and six digits.
\<close>

definition digits2 :: "nat \<Rightarrow> string" where
  "digits2 n = [digit_char (n div 10 mod 10), digit_char (n mod 10)]"

definition digits3 :: "nat \<Rightarrow> string" where
  "digits3 n = digit_char (n div 100 mod 10) # digits2 n"

definition digits4 :: "nat \<Rightarrow> string" where
  "digits4 n = digit_char (n div 1000 mod 10) # digits3 n"

definition digits6 :: "nat \<Rightarrow> string" where
  "digits6 n = digit_char (n div 100000 mod 10) # digit_char (n div 10000 mod 10) # digits4 n"

definition dayOfEra :: "nat \<Rightarrow> nat" where
  "dayOfEra days = (days + 719468) mod 146097"

definition yearOfEra :: "nat \<Rightarrow> nat" where
  "yearOfEra doe = (doe - doe div 1460 + doe div 36524 - doe div 146096) div 365"

definition dayOfYear :: "nat \<Rightarrow> nat" where
  "dayOfYear doe = doe - (365 * yearOfEra doe + yearOfEra doe div 4 - yearOfEra doe div 100)"

definition monthIndex :: "nat \<Rightarrow> nat" where
  "monthIndex doy = (5 * doy + 2) div 153"

definition utcMonth :: "nat \<Rightarrow> nat" where
  "utcMonth days =
     (if monthIndex (dayOfYear (dayOfEra days)) < 10
      then monthIndex (dayOfYear (dayOfEra days)) + 3
      else monthIndex (dayOfYear (dayOfEra days)) - 9)"

definition utcDate :: "nat \<Rightarrow> nat" where
  "utcDate days =
     dayOfYear (dayOfEra days) - (153 * monthIndex (dayOfYear (dayOfEra days)) + 2) div 5 + 1"

definition utcFullYear :: "nat \<Rightarrow> nat" where
  "utcFullYear days =
     yearOfEra (dayOfEra days) + (days + 719468) div 146097 * 400
     + (if utcMonth days \<le> 2 then 1 else 0)"

definition toISOString :: "nat \<Rightarrow> string" where
  "toISOString ms =
     (if utcFullYear (ms div 86400000) \<le> 9999 then digits4 (utcFullYear (ms div 86400000))
      else ''+'' @ digits6 (utcFullYear (ms div 86400000)))
     @ ''-'' @ digits2 (utcMonth (ms div 86400000))
     @ ''-'' @ digits2 (utcDate (ms div 86400000))
     @ ''T'' @ digits2 (ms mod 86400000 div 3600000)
     @ '':'' @ digits2 (ms mod 3600000 div 60000)
     @ '':'' @ digits2 (ms mod 60000 div 1000)
     @ ''.'' @ digits3 (ms mod 1000) @ ''Z''"

text \<open>
  A value written by \<open>JSON.stringify\<close> and read by \<open>JSON.parse\<close>. A Date is written as the
  string its \<open>toJSON\<close> returns, which is \<open>toISOString()\<close>, and read as that string; strings,
  booleans, JSON values, lists and missing optional fields are read as they were written.
\<close>

fun dateThroughJson :: "jsdate \<Rightarrow> jsdate" where
  "dateThroughJson (DateObj ms) = DateStr (toISOString ms)"
| "dateThroughJson (DateStr written) = DateStr written"

definition messageThroughJson :: "ChatMessage \<Rightarrow> ChatMessage" where
  "messageThroughJson msg = msg\<lparr>msg_timestamp := dateThroughJson (msg_timestamp msg)\<rparr>"

definition sessionThroughJson :: "ChatSession \<Rightarrow> ChatSession" where
  "sessionThroughJson s =
     s\<lparr>ses_messages := map messageThroughJson (ses_messages s),
       ses_createdAt := dateThroughJson (ses_createdAt s),
       ses_updatedAt := dateThroughJson (ses_updatedAt s)\<rparr>"

definition throughStorage :: "PersistedState \<Rightarrow> PersistedState" where
  "throughStorage p =
     \<lparr>p_sessions = map sessionThroughJson (p_sessions p),
      p_currentSession = map_option sessionThroughJson (p_currentSession p)\<rparr>"

definition rehydrate :: "PersistedState \<Rightarrow> ChatStore" where
  "rehydrate p =
     initialChatStore\<lparr>sessions := p_sessions p, currentSession := p_currentSession p\<rparr>"

text \<open>The store after the page is loaded again: written, read back, merged.\<close>

definition reload :: "ChatStore \<Rightarrow> ChatStore" where
  "reload state = rehydrate (throughStorage (partialize state))"

section \<open>The agent store (store/agent-store.ts)\<close>

datatype agent_status = Online | Offline | Busy

datatype agent_type = Financial | SalesMarketing | Research | General | Orchestrator

record Agent =
  ag_id :: string
  ag_name :: string
  ag_description :: string
  ag_capabilities :: "string list"
  ag_status :: agent_status
  ag_avatar :: "string option"
  ag_endpoint :: string
  ag_type :: agent_type

record AgentStore =
  agents :: "Agent list"
  selectedAgent :: "Agent option"

text \<open>
  \<open>process.env.NAME || fallback\<close>: \<open>env\<close> is the process environment; an empty value is
  falsy.
\<close>

definition envOr :: "(string \<Rightarrow> string option) \<Rightarrow> string \<Rightarrow> string \<Rightarrow> string" where
  "envOr env name fallback =
     (case env name of None \<Rightarrow> fallback | Some v \<Rightarrow> if v = [] then fallback else v)"

definition defaultAgents :: "(string \<Rightarrow> string option) \<Rightarrow> Agent list" where
  "defaultAgents env =
     [\<lparr>ag_id = ''central-orchestrator'',
       ag_name = ''AI Orchestrator (Multi-Agent)'',
       ag_description =
         ''Intelligent coordinator that combines insights from multiple specialized agents'',
       ag_capabilities =
         [''Multi-Agent Coordination'', ''Collaborative Analysis'', ''Cross-Domain Insights'',
          ''Complex Query Processing'', ''Integrated Financial + Sales Intelligence'',
          ''Strategic Recommendations'', ''Workflow Management''],
       ag_status = Online,
       ag_avatar = None,
       ag_endpoint = envOr env ''ORCHESTRATOR_API_URL'' ''http://localhost:8001'',
       ag_type = Orchestrator\<rparr>,
      \<lparr>ag_id = ''financial-intelligence'',
       ag_name = ''Financial Intelligence Agent'',
       ag_description =
         ''Advanced financial analysis, P&L statements, and business insights'',
       ag_capabilities =
         [''Financial Analysis'', ''P&L Statement Generation'', ''Business Intelligence'',
          ''Market Research'', ''Risk Assessment''],
       ag_status = Online,
       ag_avatar = None,
       ag_endpoint =
         envOr env ''FINANCIAL_AGENT_API_URL''
           ''https://uplevel-financial-agent-834012950450.us-central1.run.app'',
       ag_type = Financial\<rparr>,
      \<lparr>ag_id = ''sales-marketing'',
       ag_name = ''Sales & Marketing Intelligence Agent'',
       ag_description =
         ''Sales pipeline management, lead generation, and marketing analytics'',
       ag_capabilities =
         [''Lead Management'', ''Sales Pipeline Analysis'', ''Campaign Performance'',
          ''Customer Segmentation'', ''Revenue Forecasting'', ''Contract Management'',
          ''Payment Tracking''],
       ag_status = Online,
       ag_avatar = None,
       ag_endpoint = envOr env ''SALES_AGENT_API_URL'' ''http://localhost:8003'',
       ag_type = SalesMarketing\<rparr>,
      \<lparr>ag_id = ''research-specialist'',
       ag_name = ''Research Specialist'',
       ag_description = ''In-depth research and data analysis across various domains'',
       ag_capabilities =
         [''Market Research'', ''Competitive Analysis'', ''Industry Reports'', ''Data Mining''],
       ag_status = Offline,
       ag_avatar = None,
       ag_endpoint = [],
       ag_type = Research\<rparr>]"

text \<open>The store starts with the default agents, the first of them selected.\<close>

definition initialAgentStore :: "(string \<Rightarrow> string option) \<Rightarrow> AgentStore" where
  "initialAgentStore env =
     \<lparr>agents = defaultAgents env,
      selectedAgent = (case defaultAgents env of [] \<Rightarrow> None | agent # rest \<Rightarrow> Some agent)\<rparr>"

definition setAgents :: "Agent list \<Rightarrow> AgentStore \<Rightarrow> AgentStore" where
  "setAgents as st = st\<lparr>agents := as\<rparr>"

definition selectAgent :: "string \<Rightarrow> AgentStore \<Rightarrow> AgentStore" where
  "selectAgent agentId st =
     (case find (\<lambda>a. ag_id a = agentId) (agents st) of
        Some agent \<Rightarrow> st\<lparr>selectedAgent := Some agent\<rparr>
      | None \<Rightarrow> st)"

definition updateAgentStatus :: "string \<Rightarrow> agent_status \<Rightarrow> AgentStore \<Rightarrow> AgentStore" where
  "updateAgentStatus agentId status st =
     st\<lparr>agents := map (\<lambda>agent. if ag_id agent = agentId then agent\<lparr>ag_status := status\<rparr> else agent)
                      (agents st),
        selectedAgent :=
          (case selectedAgent st of
             None \<Rightarrow> None
           | Some sel \<Rightarrow> if ag_id sel = agentId then Some (sel\<lparr>ag_status := status\<rparr>) else Some sel)\<rparr>"

section \<open>The chat interface (components/chat/chat-interface.tsx)\<close>

subsection \<open>The JavaScript the component relies on\<close>

text \<open>
  \<open>!inputValue.trim()\<close>: the trimmed string is empty exactly when the input is white space
  and line terminators only (ECMAScript's WhiteSpace and LineTerminator, in UTF-8: the
  ASCII ones, U+00A0, U+1680, U+2000 to U+200A, U+2028, U+2029, U+202F, U+205F, U+3000,
  U+FEFF).
\<close>

definition whiteSpace3 :: "string list" where
  "whiteSpace3 =
     [[CHR 0xE1, CHR 0x9A, CHR 0x80], [CHR 0xE2, CHR 0x80, CHR 0x80],
      [CHR 0xE2, CHR 0x80, CHR 0x81], [CHR 0xE2, CHR 0x80, CHR 0x82],
      [CHR 0xE2, CHR 0x80, CHR 0x83], [CHR 0xE2, CHR 0x80, CHR 0x84],
      [CHR 0xE2, CHR 0x80, CHR 0x85], [CHR 0xE2, CHR 0x80, CHR 0x86],
      [CHR 0xE2, CHR 0x80, CHR 0x87], [CHR 0xE2, CHR 0x80, CHR 0x88],
      [CHR 0xE2, CHR 0x80, CHR 0x89], [CHR 0xE2, CHR 0x80, CHR 0x8A],
      [CHR 0xE2, CHR 0x80, CHR 0xA8], [CHR 0xE2, CHR 0x80, CHR 0xA9],
      [CHR 0xE2, CHR 0x80, CHR 0xAF], [CHR 0xE2, CHR 0x81, CHR 0x9F],
      [CHR 0xE3, CHR 0x80, CHR 0x80], [CHR 0xEF, CHR 0xBB, CHR 0xBF]]"

fun isBlank :: "string \<Rightarrow> bool" where
  "isBlank [] = True"
| "isBlank (c # cs) =
     (if c \<in> set [CHR 0x09, CHR 0x0A, CHR 0x0B, CHR 0x0C, CHR 0x0D, CHR 0x20] then isBlank cs
      else if take 2 (c # cs) = [CHR 0xC2, CHR 0xA0] then isBlank (drop 1 cs)
      else if take 3 (c # cs) \<in> set whiteSpace3 then isBlank (drop 2 cs)
      else False)"

text \<open>Truthiness of a JSON value; \<open>undefined\<close> (a missing property) is falsy.\<close>

fun truthy :: "json \<Rightarrow> bool" where
  "truthy JNull = False"
| "truthy (JBool b) = b"
| "truthy (JNum r) = (r \<noteq> 0)"
| "truthy (JStr s) = (s \<noteq> [])"
| "truthy (JArr xs) = True"
| "truthy (JObj kvs) = True"

text \<open>
  Everything the \<open>try\<close> block can throw is an Error object: one with the message the code
  or the network gave it, or a TypeError of the engine. The text of a TypeError and the
  string conversion of a value that is not a string are the engine's, so they are
  parameters.
\<close>

datatype type_fault = PropertyOfNull string | NotAFunction string

datatype js_error = JsError string | JsTypeError type_fault

record engine =
  typeErrorMessage :: "type_fault \<Rightarrow> string"
  toStringOther :: "json \<Rightarrow> js_error + string"

fun errorMessage :: "engine \<Rightarrow> js_error \<Rightarrow> string" where
  "errorMessage eng (JsError message) = message"
| "errorMessage eng (JsTypeError fault) = typeErrorMessage eng fault"

text \<open>
  \<open>data[key]\<close> for the keys the component reads (none of them a property that strings,
  arrays, numbers or booleans have): \<open>None\<close> is \<open>undefined\<close>; reading a property of \<open>null\<close>
  throws.
\<close>

fun getProp :: "json \<Rightarrow> string \<Rightarrow> js_error + json option" where
  "getProp JNull key = Inl (JsTypeError (PropertyOfNull key))"
| "getProp (JObj kvs) key = Inr (map_of kvs key)"
| "getProp v key = Inr None"

text \<open>\<open>value || rest\<close>, where \<open>rest\<close> is evaluated only when \<open>value\<close> is falsy.\<close>

definition orElse :: "json option \<Rightarrow> (js_error + json) \<Rightarrow> js_error + json" where
  "orElse v rest = (case v of None \<Rightarrow> rest | Some x \<Rightarrow> if truthy x then Inr x else rest)"

text \<open>A value inside a template literal.\<close>

definition templateString :: "engine \<Rightarrow> json \<Rightarrow> js_error + string" where
  "templateString eng v = (case v of JStr s \<Rightarrow> Inr s | _ \<Rightarrow> toStringOther eng v)"

text \<open>\<open>s.replace(a, b)\<close> with a string pattern replaces the first occurrence only.\<close>

fun replaceFirst :: "char \<Rightarrow> char \<Rightarrow> string \<Rightarrow> string" where
  "replaceFirst a b [] = []"
| "replaceFirst a b (c # cs) = (if c = a then b # cs else c # replaceFirst a b cs)"

fun join :: "string \<Rightarrow> string list \<Rightarrow> string" where
  "join sep [] = []"
| "join sep [x] = x"
| "join sep (x # y # ys) = x @ sep @ join sep (y # ys)"

subsection \<open>handleSendMessage\<close>

definition responseField :: "agent_type \<Rightarrow> string" where
  "responseField ty = (if ty = Orchestrator then ''answer'' else ''response'')"

text \<open>
  A session has no \<open>userId\<close>, so \<open>currentSession.userId || 'frontend_user'\<close> is
  \<open>'frontend_user'\<close>.
\<close>

definition requestBody :: "agent_type \<Rightarrow> string \<Rightarrow> string \<Rightarrow> json" where
  "requestBody ty originalQuery sessionId =
     (if ty = Orchestrator then
        JObj [(''query'', JStr originalQuery), (''session_id'', JStr sessionId),
              (''user_id'', JStr ''frontend_user''), (''context'', JObj [])]
      else
        JObj [(''query'', JStr originalQuery), (''conversation_id'', JStr sessionId)])"

definition apology :: string where
  "apology = ''I apologize, but I couldn't generate a response.''"

text \<open>
  \<open>data[responseField] || data.answer || data.response || "I apologize, ..."\<close>
\<close>

definition responseContent :: "agent_type \<Rightarrow> json \<Rightarrow> js_error + json" where
  "responseContent ty data =
     (case getProp data (responseField ty) of
        Inl e \<Rightarrow> Inl e
      | Inr preferred \<Rightarrow>
          orElse preferred
            (case getProp data ''answer'' of
               Inl e \<Rightarrow> Inl e
             | Inr answer \<Rightarrow>
                 orElse answer
                   (case getProp data ''response'' of
                      Inl e \<Rightarrow> Inl e
                    | Inr response \<Rightarrow> orElse response (Inr (JStr apology)))))"

text \<open>
  The preference order in words: of the fields named, in that order, the first that holds
  a truthy value. \<open>responseContent\<close> is compared with it below.
\<close>

fun firstTruthy :: "string list \<Rightarrow> (string \<times> json) list \<Rightarrow> json option" where
  "firstTruthy [] kvs = None"
| "firstTruthy (key # keys) kvs =
     (case map_of kvs key of
        None \<Rightarrow> firstTruthy keys kvs
      | Some v \<Rightarrow> if truthy v then Some v else firstTruthy keys kvs)"

fun agentName :: "json \<Rightarrow> js_error + string" where
  "agentName (JStr agent) =
     Inr (if agent = ''financial_intelligence'' then ''Financial Intelligence''
          else if agent = ''sales_marketing'' then ''Sales & Marketing''
          else replaceFirst (CHR ''_'') (CHR '' '') agent)"
| "agentName JNull = Inl (JsTypeError (PropertyOfNull ''replace''))"
| "agentName v = Inl (JsTypeError (NotAFunction ''agent.replace''))"

text \<open>\<open>data.agents_involved.map(...)\<close>: the first element that throws ends the loop.\<close>

fun agentNames :: "json list \<Rightarrow> js_error + string list" where
  "agentNames [] = Inr []"
| "agentNames (agent # rest) =
     (case agentName agent of
        Inl e \<Rightarrow> Inl e
      | Inr name \<Rightarrow>
          (case agentNames rest of Inl e \<Rightarrow> Inl e | Inr names \<Rightarrow> Inr (name # names)))"

text \<open>
  The trailer the orchestrator's answers get. U+1F4CA and U+1F916 are their UTF-8 bytes.
\<close>

definition enhancedTemplate :: "string \<Rightarrow> string \<Rightarrow> string list \<Rightarrow> string" where
  "enhancedTemplate content queryType names =
     content @ [CHR 0x0A, CHR 0x0A] @ ''---'' @ [CHR 0x0A]
     @ [CHR 0xF0, CHR 0x9F, CHR 0x93, CHR 0x8A] @ '' **Query Type**: '' @ queryType
     @ [CHR 0x0A] @ [CHR 0xF0, CHR 0x9F, CHR 0xA4, CHR 0x96] @ '' **Agents Consulted**: ''
     @ join '', '' names"

definition enhancedContent :: "engine \<Rightarrow> agent_type \<Rightarrow> json \<Rightarrow> json \<Rightarrow> js_error + json" where
  "enhancedContent eng ty data content =
     (if ty \<noteq> Orchestrator then Inr content
      else
        (case getProp data ''query_type'' of
           Inl e \<Rightarrow> Inl e
         | Inr None \<Rightarrow> Inr content
         | Inr (Some queryType) \<Rightarrow>
             if \<not> truthy queryType then Inr content
             else
               (case getProp data ''agents_involved'' of
                  Inl e \<Rightarrow> Inl e
                | Inr None \<Rightarrow> Inr content
                | Inr (Some involved) \<Rightarrow>
                    if \<not> truthy involved then Inr content
                    else
                      (case involved of
                         JArr elems \<Rightarrow>
                           (case agentNames elems of
                              Inl e \<Rightarrow> Inl e
                            | Inr names \<Rightarrow>
                                (case templateString eng content of
                                   Inl e \<Rightarrow> Inl e
                                 | Inr c \<Rightarrow>
                                     (case templateString eng queryType of
                                        Inl e \<Rightarrow> Inl e
                                      | Inr q \<Rightarrow> Inr (JStr (enhancedTemplate c q names)))))
                       | _ \<Rightarrow> Inl (JsTypeError (NotAFunction ''data.agents_involved.map''))))))"

text \<open>
  What \<open>fetch\<close> and \<open>response.json()\<close> can do: the request is rejected (a transport error),
  or a response arrives with its status (\<open>response.ok\<close> is a status from 200 to 299) and a
  body that parses as JSON or does not.
\<close>

datatype response_body = InvalidJson string | JsonBody json

datatype fetch_outcome = Rejected string | Response nat response_body

definition response_ok :: "nat \<Rightarrow> bool" where
  "response_ok status = (200 \<le> status \<and> status \<le> 299)"

definition successUpdates :: "agent_type \<Rightarrow> json \<Rightarrow> json \<Rightarrow> MessageUpdates" where
  "successUpdates ty data content =
     \<lparr>upd_id = None, upd_content = Some content, upd_role = None, upd_timestamp = None,
      upd_agentId = None,
      upd_metadata =
        Some (Some \<lparr>md_type = Some (if ty = Orchestrator then ''orchestrator'' else ''query''),
                    md_loading = Some False,
                    md_error = None,
                    md_orchestratorData = (if ty = Orchestrator then Some data else None)\<rparr>)\<rparr>"

text \<open>
  The \<open>catch\<close> block's update. What the \<open>try\<close> block throws is always an Error, so
  \<open>error instanceof Error ? error.message : 'Unknown error'\<close> is its message.
\<close>

definition errorUpdates :: "engine \<Rightarrow> js_error \<Rightarrow> MessageUpdates" where
  "errorUpdates eng e =
     \<lparr>upd_id = None,
      upd_content =
        Some (JStr (''I apologize, but I encountered an error while processing your request: ''
                    @ errorMessage eng e)),
      upd_role = None, upd_timestamp = None, upd_agentId = None,
      upd_metadata =
        Some (Some \<lparr>md_type = None, md_loading = Some False, md_error = Some (JBool True),
                    md_orchestratorData = None\<rparr>)\<rparr>"

text \<open>The \<open>try\<close> block after the request: \<open>Inl\<close> is what it throws.\<close>

definition tryBlock ::
  "engine \<Rightarrow> nat \<Rightarrow> string \<Rightarrow> agent_type \<Rightarrow> fetch_outcome \<Rightarrow> ChatStore \<Rightarrow> js_error + ChatStore" where
  "tryBlock eng t_updated loadingMessageId ty outcome st =
     (case outcome of
        Rejected message \<Rightarrow> Inl (JsError message)
      | Response status body \<Rightarrow>
          if \<not> response_ok status then Inl (JsError (''API Error: '' @ string_of_nat status))
          else
            (case body of
               InvalidJson message \<Rightarrow> Inl (JsError message)
             | JsonBody data \<Rightarrow>
                 (case responseContent ty data of
                    Inl e \<Rightarrow> Inl e
                  | Inr content \<Rightarrow>
                      (case enhancedContent eng ty data content of
                         Inl e \<Rightarrow> Inl e
                       | Inr enhanced \<Rightarrow>
                           Inr (updateMessage t_updated loadingMessageId
                                  (successUpdates ty data enhanced) st)))))"

definition catchBlock :: "engine \<Rightarrow> nat \<Rightarrow> string \<Rightarrow> js_error \<Rightarrow> ChatStore \<Rightarrow> ChatStore" where
  "catchBlock eng t_updated loadingMessageId e st =
     updateMessage t_updated loadingMessageId (errorUpdates eng e) st"

definition userMessage :: "string \<Rightarrow> Agent \<Rightarrow> MessageData" where
  "userMessage input agent =
     \<lparr>data_content = JStr input, data_role = User, data_agentId = Some (ag_id agent),
      data_metadata = None\<rparr>"

definition loadingText :: "agent_type \<Rightarrow> string" where
  "loadingText ty =
     (if ty = Orchestrator
      then ''Coordinating with specialized agents to provide comprehensive insights...''
      else ''Analyzing your request...'')"

text \<open>
  The component's state: the chat store, the agent store and the input field.
  \<open>handleSendMessage\<close> reads the clock eight times (\<open>clock i\<close> is reading \<open>i\<close>): three in
  each \<open>addMessage\<close>, one for the loading id between them, one in \<open>updateMessage\<close>.
  \<open>fetch url body\<close> is what the request to the agent comes to. The result is \<open>Inl\<close> when
  the call throws. Nothing else changes the stores while the request is pending.
\<close>

definition loadingMessage :: "Agent \<Rightarrow> MessageData" where
  "loadingMessage agent =
     \<lparr>data_content = JStr (loadingText (ag_type agent)), data_role = Assistant,
      data_agentId = Some (ag_id agent),
      data_metadata =
        Some \<lparr>md_type = None, md_loading = Some True, md_error = None,
              md_orchestratorData = None\<rparr>\<rparr>"

record ChatUI =
  chat :: ChatStore
  agentStore :: AgentStore
  inputValue :: string

definition handleSendMessage ::
  "engine \<Rightarrow> (nat \<Rightarrow> nat) \<Rightarrow> (string \<Rightarrow> json \<Rightarrow> fetch_outcome) \<Rightarrow> ChatUI \<Rightarrow> js_error + ChatUI" where
  "handleSendMessage eng clock fetch ui =
     (if isBlank (inputValue ui) then Inr ui
      else
        (case selectedAgent (agentStore ui) of
           None \<Rightarrow> Inr ui
         | Some agent \<Rightarrow>
             (case currentSession (chat ui) of
                None \<Rightarrow> Inr ui
              | Some cur \<Rightarrow>
                  (let st1 = addMessage (clock 0) (clock 1) (clock 2)
                               (userMessage (inputValue ui) agent) (chat ui);
                       originalQuery = inputValue ui;
                       st2 = setLoading True st1;
                       loadingMessageId = ''msg_loading_'' @ string_of_nat (clock 3);
                       st3 = addMessage (clock 4) (clock 5) (clock 6) (loadingMessage agent) st2;
                       outcome = fetch (ag_endpoint agent @ ''/query'')
                                   (requestBody (ag_type agent) originalQuery (ses_id cur));
                       st4 = (case tryBlock eng (clock 7) loadingMessageId (ag_type agent)
                                     outcome st3 of
                                Inr st \<Rightarrow> st
                              | Inl e \<Rightarrow> catchBlock eng (clock 7) loadingMessageId e st3)
                   in Inr (ui\<lparr>chat := setLoading False st4, inputValue := []\<rparr>)))))"

section \<open>The orchestrator's intent classifier (specification, section 4.1)\<close>

text \<open>
  The orchestrator service (agents/orchestrator) is not among the sources: only its
  deployment scripts are. Its classifier is therefore taken from the specification, and
  every definition of this section says so.
\<close>

text \<open>Modelled from the spec: the status of a registered agent (section 3, Agent); the
  registry code is missing.\<close>

datatype health = Healthy | Degraded | Unreachable

text \<open>Modelled from the spec: an agent of the registry (section 3): stable id, capability
  tags, endpoint, status, last latency; the registry code is missing.\<close>

record RegisteredAgent =
  ra_id :: string
  ra_tags :: "string list"
  ra_endpoint :: string
  ra_status :: health
  ra_latency :: nat

text \<open>Modelled from the spec: the query types of section 3 and the sentinel
  "unclassified" of section 4.1; the classifier code is missing.\<close>

datatype query_type = SingleAgent | Collaborative | Sequential | Unclassified

text \<open>Modelled from the spec: a step of a sequential classification, \<open>(text,
  target_agent, depends_on?)\<close> (section 4.1); the classifier code is missing.\<close>

record Step =
  step_text :: string
  step_agent :: string
  step_depends_on :: "nat option"

text \<open>Modelled from the spec: the result of \<open>classify\<close>, \<open>{type, target_agents, steps?}\<close>
  (section 4.1); the classifier code is missing.\<close>

record Classification =
  cl_type :: query_type
  cl_target_agents :: "string list"
  cl_steps :: "Step list"

text \<open>Modelled from the spec: a turn of a session, (query, classification, answer)
  (section 3, Session); the session store code is missing.\<close>

record Turn =
  turn_query :: string
  turn_classification :: Classification
  turn_answer :: string

text \<open>Modelled from the spec: a session (section 3): its id, its turns in order, its
  context bag; the session store code is missing.\<close>

record Session =
  session_id :: string
  session_turns :: "Turn list"
  session_context :: "(string \<times> string) list"

text \<open>Modelled from the spec: \<open>append_turn\<close> of the session store (section 4.3); the
  session store code is missing.\<close>

definition append_turn :: "Turn \<Rightarrow> Session \<Rightarrow> Session" where
  "append_turn turn s = s\<lparr>session_turns := session_turns s @ [turn]\<rparr>"

text \<open>Modelled from the spec: the lexical matching of section 4.1 works on the words of
  the query; the tokenizer is missing. A word is a run of ASCII letters and digits.\<close>

definition word_char :: "char \<Rightarrow> bool" where
  "word_char c =
     (48 \<le> (of_char c :: nat) \<and> (of_char c :: nat) \<le> 57
      \<or> 65 \<le> (of_char c :: nat) \<and> (of_char c :: nat) \<le> 90
      \<or> 97 \<le> (of_char c :: nat) \<and> (of_char c :: nat) \<le> 122)"

text \<open>Modelled from the spec: words are compared without regard to case; the tokenizer
  is missing.\<close>

definition lower_char :: "char \<Rightarrow> char" where
  "lower_char c =
     (if 65 \<le> (of_char c :: nat) \<and> (of_char c :: nat) \<le> 90
      then (case map_of (zip ''ABCDEFGHIJKLMNOPQRSTUVWXYZ'' ''abcdefghijklmnopqrstuvwxyz'') c of
              Some l \<Rightarrow> l
            | None \<Rightarrow> c)
      else c)"

text \<open>Modelled from the spec: the words of a text in lower case, in order; the tokenizer
  is missing.\<close>

fun tokenize :: "string \<Rightarrow> string \<Rightarrow> string list" where
  "tokenize word [] = (if word = [] then [] else [word])"
| "tokenize word (c # cs) =
     (if word_char c then tokenize (word @ [lower_char c]) cs
      else if word = [] then tokenize [] cs
      else word # tokenize [] cs)"

text \<open>Modelled from the spec: the words of a query (section 4.1); the tokenizer is
  missing.\<close>

definition tokens :: "string \<Rightarrow> string list" where
  "tokens phrase = tokenize [] phrase"

text \<open>Modelled from the spec: "presence of conjunction markers (and, also, both)"
  (section 4.1); the classifier code is missing.\<close>

definition has_conjunction :: "string \<Rightarrow> bool" where
  "has_conjunction query = list_ex (\<lambda>w. w \<in> set [''and'', ''also'', ''both'']) (tokens query)"

text \<open>Modelled from the spec: the ordering marker "after that" (section 4.1), two words
  in a row; the classifier code is missing.\<close>

fun after_that :: "string list \<Rightarrow> bool" where
  "after_that (w # w' # ws) = (w = ''after'' \<and> w' = ''that'' \<or> after_that (w' # ws))"
| "after_that ws = False"

text \<open>Modelled from the spec: "presence of ordering markers (first...then, after that,
  next)" (section 4.1); the classifier code is missing.\<close>

definition has_ordering :: "string \<Rightarrow> bool" where
  "has_ordering query =
     (''then'' \<in> set (dropWhile (\<lambda>w. w \<noteq> ''first'') (tokens query))
      \<or> after_that (tokens query)
      \<or> ''next'' \<in> set (tokens query))"

text \<open>Modelled from the spec: "split the query on the ordering marker to produce ordered
  step texts" (section 4.1); the classifier code is missing. The markers themselves are
  not part of a step.\<close>

fun split_steps :: "string list \<Rightarrow> string list \<Rightarrow> string list list" where
  "split_steps cur [] = [cur]"
| "split_steps cur (w # ws) =
     (if w = ''then'' \<or> w = ''next'' then cur # split_steps [] ws
      else if w = ''after'' \<and> take 1 ws = [''that''] then cur # split_steps [] (drop 1 ws)
      else if w = ''first'' then split_steps cur ws
      else split_steps (cur @ [w]) ws)"

text \<open>Modelled from the spec: a step text is the words of its part of the query (section
  4.1); the classifier code is missing.\<close>

fun unwords :: "string list \<Rightarrow> string" where
  "unwords [] = []"
| "unwords [w] = w"
| "unwords (w # w' # ws) = w @ '' '' @ unwords (w' # ws)"

text \<open>Modelled from the spec: the ordered step texts of a query (section 4.1), empty
  parts left out; the classifier code is missing.\<close>

definition step_texts :: "string \<Rightarrow> string list" where
  "step_texts query = map unwords (filter (\<lambda>ws. ws \<noteq> []) (split_steps [] (tokens query)))"

text \<open>Modelled from the spec: "the most specific (longer, more specialized) capability
  tag" of the tie-break (section 4.1): the length of the agent's longest tag; the
  classifier code is missing.\<close>

definition specificity :: "RegisteredAgent \<Rightarrow> nat" where
  "specificity a = fold max (map length (ra_tags a)) 0"

text \<open>Modelled from the spec: "highest-scoring agent" with the tie-break "equal top
  scores: prefer the agent with the most specific capability tag; if still tied,
  deterministic lexical order of agent id" (section 4.1); the classifier code is
  missing. The specification leaves the scoring open, so \<open>score\<close> is a parameter: the
  score of a text against an agent's capability keywords.\<close>

definition beats ::
  "(string \<Rightarrow> RegisteredAgent \<Rightarrow> real) \<Rightarrow> string \<Rightarrow> RegisteredAgent \<Rightarrow> RegisteredAgent \<Rightarrow> bool" where
  "beats score phrase a b =
     (score phrase b < score phrase a
      \<or> score phrase a = score phrase b
        \<and> (specificity b < specificity a
           \<or> specificity a = specificity b \<and> ra_id a < ra_id b))"

text \<open>Modelled from the spec: the single best-matching agent of a text (section 4.1): an
  agent of the registry that is ahead of every other one; the classifier code is
  missing.\<close>

definition is_best ::
  "(string \<Rightarrow> RegisteredAgent \<Rightarrow> real) \<Rightarrow> RegisteredAgent list \<Rightarrow> string \<Rightarrow> RegisteredAgent \<Rightarrow> bool" where
  "is_best score registry phrase a =
     (a \<in> set registry \<and> list_all (\<lambda>b. b = a \<or> beats score phrase a b) registry)"

text \<open>Modelled from the spec: the agents that clear the "minimum relevance threshold"
  (section 4.1), in registration order; the classifier code is missing. The threshold is
  left open by the specification, so it is a parameter.\<close>

definition relevant ::
  "(string \<Rightarrow> RegisteredAgent \<Rightarrow> real) \<Rightarrow> real \<Rightarrow> RegisteredAgent list \<Rightarrow> string \<Rightarrow> RegisteredAgent list" where
  "relevant score threshold registry phrase =
     filter (\<lambda>a. threshold \<le> score phrase a) registry"

text \<open>Modelled from the spec: the steps of a sequential classification (sections 3 and
  4.1): one step per step text, in order, "each independently re-classified to a single
  best-matching agent", each step but the first depending on the one before it (a
  single-predecessor chain); the classifier code is missing.\<close>

fun steps_assigned ::
  "(string \<Rightarrow> RegisteredAgent \<Rightarrow> real) \<Rightarrow> RegisteredAgent list \<Rightarrow> nat \<Rightarrow> string list \<Rightarrow> Step list \<Rightarrow> bool" where
  "steps_assigned score registry i [] [] = True"
| "steps_assigned score registry i (phrase # phrases) (s # ss) =
     (step_text s = phrase
      \<and> step_depends_on s = (if i = 0 then None else Some (i - 1))
      \<and> list_ex (\<lambda>a. is_best score registry phrase a \<and> step_agent s = ra_id a) registry
      \<and> steps_assigned score registry (Suc i) phrases ss)"
| "steps_assigned score registry i phrases ss = False"

text \<open>Modelled from the spec: the target agents of a sequential classification are the
  agents of its steps, each named once, in step order; the classifier code is missing.\<close>

fun dedup :: "string list \<Rightarrow> string list" where
  "dedup [] = []"
| "dedup (x # xs) = x # dedup (filter (\<lambda>y. y \<noteq> x) xs)"

text \<open>Modelled from the spec: the contract of \<open>classify(query, session_context)\<close>
  (section 4.1), as the relation between a query, a registry and the classifications the
  rules allow; the classifier code is missing. The cues are taken in the order the
  specification lists them: conjunction markers with two or more agents above the
  threshold give \<open>collaborative\<close>, the targets in registration order; else ordering markers
  give \<open>sequential\<close>; else the highest-scoring agent, or \<open>unclassified\<close> when no agent
  clears the threshold. (Which cue wins in a query that has both, the specification does
  not say.) The rules do not consult the session context.\<close>

definition classifies ::
  "(string \<Rightarrow> RegisteredAgent \<Rightarrow> real) \<Rightarrow> real \<Rightarrow> RegisteredAgent list \<Rightarrow> string \<Rightarrow> Session
     \<Rightarrow> Classification \<Rightarrow> bool" where
  "classifies score threshold registry query session_ctx c =
     (if has_conjunction query \<and> 2 \<le> length (relevant score threshold registry query) then
        c = \<lparr>cl_type = Collaborative,
             cl_target_agents = map ra_id (relevant score threshold registry query),
             cl_steps = []\<rparr>
      else if has_ordering query \<and> step_texts query \<noteq> [] then
        cl_type c = Sequential
        \<and> steps_assigned score registry 0 (step_texts query) (cl_steps c)
        \<and> cl_target_agents c = dedup (map step_agent (cl_steps c))
      else if relevant score threshold registry query = [] then
        c = \<lparr>cl_type = Unclassified, cl_target_agents = [], cl_steps = []\<rparr>
      else
        cl_type c = SingleAgent \<and> cl_steps c = []
        \<and> list_ex (\<lambda>a. is_best score registry query a \<and> cl_target_agents c = [ra_id a]) registry)"

text \<open>Modelled from the spec: the highest-scoring agent of a non-empty list, found in one
  pass with the tie-break of section 4.1; the classifier code is missing.\<close>

fun best_of ::
  "(string \<Rightarrow> RegisteredAgent \<Rightarrow> real) \<Rightarrow> string \<Rightarrow> RegisteredAgent \<Rightarrow> RegisteredAgent list
     \<Rightarrow> RegisteredAgent" where
  "best_of score phrase a [] = a"
| "best_of score phrase a (b # bs) =
     best_of score phrase (if beats score phrase b a then b else a) bs"

text \<open>Modelled from the spec: the best-matching agent of a text (section 4.1), none when
  the registry is empty; the classifier code is missing.\<close>

definition best_agent ::
  "(string \<Rightarrow> RegisteredAgent \<Rightarrow> real) \<Rightarrow> RegisteredAgent list \<Rightarrow> string \<Rightarrow> RegisteredAgent option" where
  "best_agent score registry phrase =
     (case registry of [] \<Rightarrow> None | a # rest \<Rightarrow> Some (best_of score phrase a rest))"

text \<open>Modelled from the spec: the steps of a sequential classification, computed (section
  4.1); the classifier code is missing.\<close>

fun assign_steps ::
  "(string \<Rightarrow> RegisteredAgent \<Rightarrow> real) \<Rightarrow> RegisteredAgent list \<Rightarrow> nat \<Rightarrow> string list
     \<Rightarrow> Step list option" where
  "assign_steps score registry i [] = Some []"
| "assign_steps score registry i (phrase # phrases) =
     (case best_agent score registry phrase of
        None \<Rightarrow> None
      | Some a \<Rightarrow>
          (case assign_steps score registry (Suc i) phrases of
             None \<Rightarrow> None
           | Some ss \<Rightarrow>
               Some (\<lparr>step_text = phrase, step_agent = ra_id a,
                      step_depends_on = (if i = 0 then None else Some (i - 1))\<rparr> # ss)))"

text \<open>Modelled from the spec: \<open>classify(query, session_context)\<close> (section 4.1) as a
  function; the classifier code is missing. \<open>None\<close>: the rules name no classification
  (a best-matching agent is asked of an empty registry).\<close>

definition classify ::
  "(string \<Rightarrow> RegisteredAgent \<Rightarrow> real) \<Rightarrow> real \<Rightarrow> RegisteredAgent list \<Rightarrow> string \<Rightarrow> Session
     \<Rightarrow> Classification option" where
  "classify score threshold registry query session_ctx =
     (if has_conjunction query \<and> 2 \<le> length (relevant score threshold registry query) then
        Some \<lparr>cl_type = Collaborative,
              cl_target_agents = map ra_id (relevant score threshold registry query),
              cl_steps = []\<rparr>
      else if has_ordering query \<and> step_texts query \<noteq> [] then
        (case assign_steps score registry 0 (step_texts query) of
           None \<Rightarrow> None
         | Some ss \<Rightarrow>
             Some \<lparr>cl_type = Sequential, cl_target_agents = dedup (map step_agent ss),
                   cl_steps = ss\<rparr>)
      else if relevant score threshold registry query = [] then
        Some \<lparr>cl_type = Unclassified, cl_target_agents = [], cl_steps = []\<rparr>
      else
        (case best_agent score registry query of
           None \<Rightarrow> None
         | Some a \<Rightarrow>
             Some \<lparr>cl_type = SingleAgent, cl_target_agents = [ra_id a], cl_steps = []\<rparr>))"

text \<open>Modelled from the spec: a keyword-overlap score, one of the scorings section 4.1
  names: the number of words of the text that are among the agent's keywords; the
  classifier code is missing.\<close>

definition keyword_overlap ::
  "(string \<Rightarrow> string list) \<Rightarrow> string \<Rightarrow> RegisteredAgent \<Rightarrow> real" where
  "keyword_overlap keywords phrase a =
     real (length (filter (\<lambda>w. w \<in> set (keywords (ra_id a))) (tokens phrase)))"

text \<open>Modelled from the spec: a keyword corpus for the two agents of the scenarios of
  section 8; the specification gives none.\<close>

definition demo_keywords :: "string \<Rightarrow> string list" where
  "demo_keywords agent_id =
     (if agent_id = ''financial_intelligence''
      then [''financial'', ''revenue'', ''profit'', ''expenses'', ''performance'']
      else if agent_id = ''sales_marketing''
      then [''lead'', ''generation'', ''sales'', ''marketing'', ''strategy'', ''email'',
            ''campaign'']
      else [])"

text \<open>Modelled from the spec: the registry of the scenarios of section 8, the financial
  agent registered first; the registry code is missing.\<close>

definition demo_registry :: "RegisteredAgent list" where
  "demo_registry =
     [\<lparr>ra_id = ''financial_intelligence'', ra_tags = [''financial''],
       ra_endpoint = ''http://localhost:8002'', ra_status = Healthy, ra_latency = 0\<rparr>,
      \<lparr>ra_id = ''sales_marketing'', ra_tags = [''sales_marketing''],
       ra_endpoint = ''http://localhost:8003'', ra_status = Healthy, ra_latency = 0\<rparr>]"

text \<open>Modelled from the spec: a session with no turn yet (section 3, "created on first
  query for a new session id"); the session store code is missing.\<close>

definition new_session :: "string \<Rightarrow> Session" where
  "new_session sid = \<lparr>session_id = sid, session_turns = [], session_context = []\<rparr>"

section \<open>A session of the portal, for the examples\<close>

text \<open>
  The states the examples run on are states the portal reaches: the stores as they start,
  one session created for the orchestrator, a question typed into the input field. The
  two \<open>addMessage\<close> calls of a send and the loading id between them fall within one
  millisecond; the reply arrives 850 ms later.
\<close>

definition demo_chat :: ChatStore where
  "demo_chat =
     createSession (\<lambda>t. ''11/14/2023'') 1699999990000 1699999990000 1699999990000
       1699999990000 ''central-orchestrator'' initialChatStore"

text \<open>A second session, created five seconds later for the financial agent.\<close>

definition demo_chat2 :: ChatStore where
  "demo_chat2 =
     createSession (\<lambda>t. ''11/14/2023'') 1699999995000 1699999995000 1699999995000
       1699999995000 ''financial-intelligence'' demo_chat"


text \<open>The second session deleted while it was the current one: no current session.\<close>

definition demo_chat_none :: ChatStore where
  "demo_chat_none = deleteSession ''session_1699999995000'' demo_chat2"

text \<open>The first session with one question asked in it.\<close>

definition demo_chat_asked :: ChatStore where
  "demo_chat_asked =
     addMessage 1700000000000 1700000000000 1700000000000
       \<lparr>data_content = JStr ''What is our revenue?'', data_role = User,
        data_agentId = Some ''central-orchestrator'', data_metadata = None\<rparr>
       demo_chat"

definition demo_ui :: ChatUI where
  "demo_ui =
     \<lparr>chat = demo_chat, agentStore = initialAgentStore (\<lambda>name. None),
      inputValue = ''What is our revenue?''\<rparr>"

definition demo_clock :: "nat \<Rightarrow> nat" where
  "demo_clock i = (if i < 7 then 1700000000000 else 1700000000850)"

definition demo_reply :: json where
  "demo_reply =
     JObj [(''answer'', JStr ''Revenue grew 12% in Q3.''),
           (''query_type'', JStr ''single_agent''),
           (''agents_involved'', JArr [JStr ''financial_intelligence'']),
           (''session_id'', JStr ''session_1699999990000'')]"

definition demo_fetch_ok :: "string \<Rightarrow> json \<Rightarrow> fetch_outcome" where
  "demo_fetch_ok url body = Response 200 (JsonBody demo_reply)"

definition demo_fetch_500 :: "string \<Rightarrow> json \<Rightarrow> fetch_outcome" where
  "demo_fetch_500 url body =
     Response 500 (JsonBody (JObj [(''detail'', JStr ''Internal Server Error'')]))"

section \<open>Store actions: what they change and what they keep\<close>

text \<open>The example states, evaluated.\<close>

lemma string_of_nat_examples:
  "string_of_nat 1699999990000 = ''1699999990000''"
  "string_of_nat 1699999995000 = ''1699999995000''"
  "string_of_nat 1700000000000 = ''1700000000000''"
  "string_of_nat 500 = ''500''"
  by (simp_all add: string_of_nat.simps digit_char_def)

lemma demo_chat_value:
  "demo_chat =
     \<lparr>currentSession =
        Some \<lparr>ses_id = ''session_1699999990000'', ses_title = ''New Chat - 11/14/2023'',
              ses_messages = [], ses_createdAt = DateObj 1699999990000,
              ses_updatedAt = DateObj 1699999990000, ses_agentId = ''central-orchestrator''\<rparr>,
      sessions =
        [\<lparr>ses_id = ''session_1699999990000'', ses_title = ''New Chat - 11/14/2023'',
          ses_messages = [], ses_createdAt = DateObj 1699999990000,
          ses_updatedAt = DateObj 1699999990000, ses_agentId = ''central-orchestrator''\<rparr>],
      isLoading = False\<rparr>"
  by (simp add: demo_chat_def createSession_def initialChatStore_def Let_def
      string_of_nat_examples)

lemma demo_chat2_value:
  "demo_chat2 =
     \<lparr>currentSession =
        Some \<lparr>ses_id = ''session_1699999995000'', ses_title = ''New Chat - 11/14/2023'',
              ses_messages = [], ses_createdAt = DateObj 1699999995000,
              ses_updatedAt = DateObj 1699999995000, ses_agentId = ''financial-intelligence''\<rparr>,
      sessions =
        [\<lparr>ses_id = ''session_1699999995000'', ses_title = ''New Chat - 11/14/2023'',
          ses_messages = [], ses_createdAt = DateObj 1699999995000,
          ses_updatedAt = DateObj 1699999995000, ses_agentId = ''financial-intelligence''\<rparr>,
         \<lparr>ses_id = ''session_1699999990000'', ses_title = ''New Chat - 11/14/2023'',
          ses_messages = [], ses_createdAt = DateObj 1699999990000,
          ses_updatedAt = DateObj 1699999990000, ses_agentId = ''central-orchestrator''\<rparr>],
      isLoading = False\<rparr>"
  by (simp add: demo_chat2_def demo_chat_value createSession_def Let_def string_of_nat_examples)


text \<open>
  C9. Without a current session \<open>addMessage\<close> and \<open>updateMessage\<close> return at once: the
  whole store (sessions, currentSession, isLoading) is what it was, whatever the message,
  the message id, the updates and the clock are.
\<close>

theorem no_current_session_noop:
  assumes "currentSession st = None"
  shows "addMessage now t_stamp t_updated messageData st = st
       \<and> updateMessage t_updated' messageId updates st = st"
  using assms by (simp add: addMessage_def updateMessage_def)

theorem no_current_session_noop_witness:
  "currentSession demo_chat_none = None
   \<and> map ses_id (sessions demo_chat_none) = [''session_1699999990000'']
   \<and> addMessage 1700000000000 1700000000000 1700000000000
       \<lparr>data_content = JStr ''What is our revenue?'', data_role = User,
        data_agentId = Some ''central-orchestrator'', data_metadata = None\<rparr>
       demo_chat_none = demo_chat_none
   \<and> updateMessage 1700000000850 ''msg_1700000000000''
       \<lparr>upd_id = None, upd_content = Some (JStr ''Revenue grew 12% in Q3.''), upd_role = None,
        upd_timestamp = None, upd_agentId = None, upd_metadata = None\<rparr>
       demo_chat_none = demo_chat_none"
proof -
  have none: "currentSession demo_chat_none = None"
    by (simp add: demo_chat_none_def deleteSession_def demo_chat2_value)
  have ids: "map ses_id (sessions demo_chat_none) = [''session_1699999990000'']"
    by (simp add: demo_chat_none_def deleteSession_def demo_chat2_value)
  from no_current_session_noop [OF none] none ids show ?thesis by simp
qed




text \<open>
  C10. \<open>deleteSession\<close> keeps, in their order and as often as they occurred, exactly the
  sessions whose id is not \<open>sessionId\<close>, each one unchanged; the current session becomes
  null when its id is \<open>sessionId\<close> and is unchanged otherwise; \<open>isLoading\<close> stays.
\<close>

theorem deleteSession_removes_exactly:
  "subseq (sessions (deleteSession sessionId st)) (sessions st)
   \<and> (\<forall>s. count_list (sessions (deleteSession sessionId st)) s =
          (if ses_id s = sessionId then 0 else count_list (sessions st) s))
   \<and> currentSession (deleteSession sessionId st) =
       (if \<exists>cur. currentSession st = Some cur \<and> ses_id cur = sessionId then None
        else currentSession st)
   \<and> (currentSession (deleteSession sessionId st) = None) =
       (case currentSession st of None \<Rightarrow> True | Some cur \<Rightarrow> ses_id cur = sessionId)
   \<and> isLoading (deleteSession sessionId st) = isLoading st"
proof -
  have count: "count_list (filter P xs) s = (if P s then count_list xs s else 0)"
    for P and xs :: "ChatSession list" and s
    by (induction xs) auto
  show ?thesis
    by (auto simp: deleteSession_def count split: option.splits)
qed

text \<open>
  C7. \<open>updateAgentStatus\<close> changes nothing but the status of the agents whose id is
  \<open>agentId\<close>: the list keeps its length and order, an agent with another id is unchanged,
  a matched agent differs from the old one in its status only, and the selected agent
  gets the new status exactly when there is one and its id is \<open>agentId\<close>.
\<close>

theorem updateAgentStatus_frame:
  "length (agents (updateAgentStatus agentId status st)) = length (agents st)
   \<and> map ag_id (agents (updateAgentStatus agentId status st)) = map ag_id (agents st)
   \<and> (\<forall>i < length (agents st).
         agents (updateAgentStatus agentId status st) ! i =
           (if ag_id (agents st ! i) = agentId then (agents st ! i)\<lparr>ag_status := status\<rparr>
            else agents st ! i))
   \<and> selectedAgent (updateAgentStatus agentId status st) =
       (case selectedAgent st of
          None \<Rightarrow> None
        | Some sel \<Rightarrow> Some (if ag_id sel = agentId then sel\<lparr>ag_status := status\<rparr> else sel))"
  by (auto simp: updateAgentStatus_def comp_def split: option.splits intro!: nth_equalityI)

theorem updateAgentStatus_frame_witness:
  "(2::nat) < length (agents (initialAgentStore (\<lambda>name. None)))
   \<and> agents (updateAgentStatus ''sales-marketing'' Busy (initialAgentStore (\<lambda>name. None))) ! 2
     = (agents (initialAgentStore (\<lambda>name. None)) ! 2)\<lparr>ag_status := Busy\<rparr>
   \<and> map ag_status
       (agents (updateAgentStatus ''sales-marketing'' Busy (initialAgentStore (\<lambda>name. None))))
     = [Online, Online, Busy, Offline]
   \<and> selectedAgent (updateAgentStatus ''sales-marketing'' Busy (initialAgentStore (\<lambda>name. None)))
     = selectedAgent (initialAgentStore (\<lambda>name. None))"
  using updateAgentStatus_frame
    [of "''sales-marketing''" Busy "initialAgentStore (\<lambda>name. None)"]
  by (simp add: initialAgentStore_def defaultAgents_def envOr_def updateAgentStatus_def)

section \<open>Sending a message\<close>

subsection \<open>The extracted response content\<close>

text \<open>
  C1, as the code has it. The request body is \<open>{query, session_id, user_id, context}\<close> for
  the orchestrator and \<open>{query, conversation_id}\<close> for every other agent type. Of a reply
  that is a JSON object, the content is the first truthy value among \<open>answer\<close>,
  \<open>response\<close> for the orchestrator and among \<open>response\<close>, \<open>answer\<close> otherwise; when
  neither field holds a truthy value (it is missing, null, false, 0 or the empty string)
  the content is the fixed apology. Hence a reply that carries a truthy payload under one
  of the two names, the other name missing, yields that payload.
\<close>

theorem responseContent_preference_order:
  "requestBody ty query sessionId =
     (if ty = Orchestrator then
        JObj [(''query'', JStr query), (''session_id'', JStr sessionId),
              (''user_id'', JStr ''frontend_user''), (''context'', JObj [])]
      else JObj [(''query'', JStr query), (''conversation_id'', JStr sessionId)])
   \<and> responseContent ty (JObj kvs) =
       Inr (case firstTruthy (if ty = Orchestrator then [''answer'', ''response'']
                              else [''response'', ''answer'']) kvs of
              Some v \<Rightarrow> v
            | None \<Rightarrow> JStr apology)
   \<and> (truthy payload
        \<and> (map_of kvs ''answer'' = Some payload \<and> map_of kvs ''response'' = None
           \<or> map_of kvs ''response'' = Some payload \<and> map_of kvs ''answer'' = None)
        \<longrightarrow> responseContent ty (JObj kvs) = Inr payload)"
  by (auto simp: requestBody_def responseContent_def responseField_def orElse_def
      split: option.splits)

theorem responseContent_preference_order_witness:
  "truthy (JStr ''42'')
   \<and> map_of [(''answer'', JStr ''42'')] ''answer'' = Some (JStr ''42'')
   \<and> map_of [(''answer'', JStr ''42'')] ''response'' = None
   \<and> responseContent Financial (JObj [(''answer'', JStr ''42'')]) = Inr (JStr ''42'')"
  using responseContent_preference_order
    [of Financial "[]" "[]" "[(''answer'', JStr ''42'')]" "JStr ''42''"]
  by simp

text \<open>
  The claim as the specification words it fails on a falsy payload: the orchestrator's
  reply \<open>{"answer": ""}\<close> carries its payload, the empty string, under \<open>answer\<close>, and the
  content is the apology.
\<close>

theorem empty_answer_counterexample:
  "map_of [(''answer'', JStr [])] ''answer'' = Some (JStr [])
   \<and> responseContent Orchestrator (JObj [(''answer'', JStr [])]) = Inr (JStr apology)
   \<and> responseContent Orchestrator (JObj [(''answer'', JStr [])]) \<noteq> Inr (JStr [])"
  by (simp add: responseContent_def responseField_def orElse_def apology_def)

subsection \<open>The loading message is never the one updated\<close>

lemma digit_char_digit: "d < 10 \<Longrightarrow> digit_char d \<in> set ''0123456789''"
  unfolding digit_char_def by (rule nth_mem) simp

lemma string_of_nat_digits: "set (string_of_nat n) \<subseteq> set ''0123456789''"
proof (induction n rule: string_of_nat.induct)
  case (1 n)
  show ?case
  proof (cases "n < 10")
    case True
    then show ?thesis using digit_char_digit [of n] by (subst string_of_nat.simps) simp
  next
    case False
    have "n mod 10 < 10" by simp
    then have "digit_char (n mod 10) \<in> set ''0123456789''" by (rule digit_char_digit)
    with False "1.IH" show ?thesis by (subst string_of_nat.simps) simp
  qed
qed

text \<open>
  \<open>addMessage\<close> names a message \<open>msg_\<close> and the clock's digits; \<open>handleSendMessage\<close> looks
  for \<open>msg_loading_\<close> and the clock's digits. No message has such an id.
\<close>

lemma loading_id_is_no_message_id:
  "''msg_'' @ string_of_nat a \<noteq> ''msg_loading_'' @ string_of_nat b"
proof
  assume "''msg_'' @ string_of_nat a = ''msg_loading_'' @ string_of_nat b"
  then have "string_of_nat a = ''loading_'' @ string_of_nat b" by simp
  then have "CHR ''l'' \<in> set (string_of_nat a)" by simp
  with string_of_nat_digits [of a] show False by auto
qed

lemma updateMessage_other_id:
  assumes "currentSession st = Some cur"
  shows "\<exists>cur'. currentSession (updateMessage t mid u st) = Some cur'
     \<and> length (ses_messages cur') = length (ses_messages cur)
     \<and> (\<forall>i < length (ses_messages cur).
           msg_id (ses_messages cur ! i) \<noteq> mid \<longrightarrow> ses_messages cur' ! i = ses_messages cur ! i)"
  using assms by (simp add: updateMessage_def Let_def)

lemma try_catch_is_update:
  "\<exists>u. (case tryBlock eng t mid ty outcome st of
           Inr st' \<Rightarrow> st'
         | Inl e \<Rightarrow> catchBlock eng t mid e st) = updateMessage t mid u st"
  by (auto simp: tryBlock_def catchBlock_def split: sum.splits fetch_outcome.splits
      response_body.splits)

text \<open>
  Whatever the request comes to, a send that passes the guard returns (it does not
  throw), leaves \<open>isLoading\<close> false and the session two messages longer, and the second
  of the two, the loading message, is still the message \<open>addMessage\<close> made of it.
\<close>

lemma handleSendMessage_placeholder_stays:
  assumes "\<not> isBlank (inputValue ui)"
    and "selectedAgent (agentStore ui) = Some agent"
    and "currentSession (chat ui) = Some cur"
  shows "\<exists>ui' cur'. handleSendMessage eng clock fetch ui = Inr ui'
     \<and> \<not> isLoading (chat ui')
     \<and> currentSession (chat ui') = Some cur'
     \<and> length (ses_messages cur') = length (ses_messages cur) + 2
     \<and> ses_messages cur' ! (length (ses_messages cur) + 1) =
         newMessage (clock 4) (clock 5) (loadingMessage agent)"
proof -
  let ?st3 = "addMessage (clock 4) (clock 5) (clock 6) (loadingMessage agent)
      (setLoading True (addMessage (clock 0) (clock 1) (clock 2)
         (userMessage (inputValue ui) agent) (chat ui)))"
  let ?mid = "''msg_loading_'' @ string_of_nat (clock 3)"
  let ?outcome = "fetch (ag_endpoint agent @ ''/query'')
      (requestBody (ag_type agent) (inputValue ui) (ses_id cur))"
  define cur3 where "cur3 =
    cur\<lparr>ses_messages := ses_messages cur
            @ [newMessage (clock 0) (clock 1) (userMessage (inputValue ui) agent),
               newMessage (clock 4) (clock 5) (loadingMessage agent)],
        ses_updatedAt := DateObj (clock 6)\<rparr>"
  have cur3: "currentSession ?st3 = Some cur3"
    using assms(3) by (simp add: cur3_def addMessage_def setLoading_def Let_def)
  obtain u where u: "(case tryBlock eng (clock 7) ?mid (ag_type agent) ?outcome ?st3 of
           Inr st' \<Rightarrow> st'
         | Inl e \<Rightarrow> catchBlock eng (clock 7) ?mid e ?st3) = updateMessage (clock 7) ?mid u ?st3"
    using try_catch_is_update by blast
  have "handleSendMessage eng clock fetch ui =
      Inr (ui\<lparr>chat := setLoading False
             (case tryBlock eng (clock 7) ?mid (ag_type agent) ?outcome ?st3 of
                Inr st' \<Rightarrow> st'
              | Inl e \<Rightarrow> catchBlock eng (clock 7) ?mid e ?st3), inputValue := []\<rparr>)"
    using assms unfolding handleSendMessage_def Let_def by simp
  then have res: "handleSendMessage eng clock fetch ui =
      Inr (ui\<lparr>chat := setLoading False (updateMessage (clock 7) ?mid u ?st3), inputValue := []\<rparr>)"
    by (simp only: u)
  obtain cur' where cur': "currentSession (updateMessage (clock 7) ?mid u ?st3) = Some cur'"
    "length (ses_messages cur') = length (ses_messages cur3)"
    "\<forall>i < length (ses_messages cur3).
           msg_id (ses_messages cur3 ! i) \<noteq> ?mid \<longrightarrow> ses_messages cur' ! i = ses_messages cur3 ! i"
    using updateMessage_other_id [OF cur3] by blast
  have len3: "length (ses_messages cur3) = length (ses_messages cur) + 2"
    by (simp add: cur3_def)
  have nth3: "ses_messages cur3 ! (length (ses_messages cur) + 1) =
      newMessage (clock 4) (clock 5) (loadingMessage agent)"
    by (simp add: cur3_def nth_append)
  have "msg_id (ses_messages cur3 ! (length (ses_messages cur) + 1)) \<noteq> ?mid"
    unfolding nth3 using loading_id_is_no_message_id [of "clock 4" "clock 3"]
    by (simp add: newMessage_def)
  with cur'(3) len3 have "ses_messages cur' ! (length (ses_messages cur) + 1) =
      ses_messages cur3 ! (length (ses_messages cur) + 1)"
    by simp
  with nth3 cur' len3 res show ?thesis
    by (simp add: setLoading_def)
qed

subsection \<open>A send, run on the example session\<close>

lemmas send_defs =
  handleSendMessage_def demo_ui_def demo_clock_def
  initialAgentStore_def defaultAgents_def envOr_def Let_def
  addMessage_def newMessage_def userMessage_def loadingMessage_def loadingText_def
  setLoading_def tryBlock_def catchBlock_def response_ok_def responseContent_def
  responseField_def orElse_def enhancedContent_def templateString_def enhancedTemplate_def
  updateMessage_def successUpdates_def errorUpdates_def requestBody_def whiteSpace3_def

text \<open>
  What the send of the example hands to \<open>updateMessage\<close> as the new content: the reply's
  answer and the trailer of an orchestrator's reply.
\<close>

lemma demo_enhanced_content:
  "enhancedContent eng Orchestrator demo_reply (JStr ''Revenue grew 12% in Q3.'') =
     Inr (JStr (''Revenue grew 12% in Q3.'' @ [CHR 0x0A, CHR 0x0A] @ ''---'' @ [CHR 0x0A]
                @ [CHR 0xF0, CHR 0x9F, CHR 0x93, CHR 0x8A] @ '' **Query Type**: single_agent''
                @ [CHR 0x0A] @ [CHR 0xF0, CHR 0x9F, CHR 0xA4, CHR 0x96]
                @ '' **Agents Consulted**: Financial Intelligence''))"
  by (simp add: enhancedContent_def demo_reply_def templateString_def enhancedTemplate_def)

text \<open>
  C2. The orchestrator is selected, the session is new, the question is "What is our
  revenue?", and the agent answers with status 200 and \<open>demo_reply\<close>, whose \<open>answer\<close> is
  the extracted response content. After the send the session holds the user's message and
  the loading message, and the loading message is as \<open>addMessage\<close> made it: its content is
  the loading text and its loading flag is set. \<open>updateMessage\<close> was called with the id
  \<open>msg_loading_1700000000000\<close>, which no message has; it refreshed \<open>updatedAt\<close> only.
\<close>

theorem send_success_leaves_loading_message:
  "responseContent Orchestrator demo_reply = Inr (JStr ''Revenue grew 12% in Q3.'')
   \<and> handleSendMessage eng demo_clock demo_fetch_ok demo_ui =
     Inr \<lparr>chat =
            \<lparr>currentSession =
               Some \<lparr>ses_id = ''session_1699999990000'', ses_title = ''New Chat - 11/14/2023'',
                     ses_messages =
                       [\<lparr>msg_id = ''msg_1700000000000'',
                         msg_content = JStr ''What is our revenue?'',
                         msg_role = User, msg_timestamp = DateObj 1700000000000,
                         msg_agentId = Some ''central-orchestrator'', msg_metadata = None\<rparr>,
                        \<lparr>msg_id = ''msg_1700000000000'',
                         msg_content =
                           JStr ''Coordinating with specialized agents to provide comprehensive insights...'',
                         msg_role = Assistant, msg_timestamp = DateObj 1700000000000,
                         msg_agentId = Some ''central-orchestrator'',
                         msg_metadata =
                           Some \<lparr>md_type = None, md_loading = Some True, md_error = None,
                                 md_orchestratorData = None\<rparr>\<rparr>],
                     ses_createdAt = DateObj 1699999990000,
                     ses_updatedAt = DateObj 1700000000850,
                     ses_agentId = ''central-orchestrator''\<rparr>,
             sessions =
               [\<lparr>ses_id = ''session_1699999990000'', ses_title = ''New Chat - 11/14/2023'',
                 ses_messages =
                   [\<lparr>msg_id = ''msg_1700000000000'',
                     msg_content = JStr ''What is our revenue?'',
                     msg_role = User, msg_timestamp = DateObj 1700000000000,
                     msg_agentId = Some ''central-orchestrator'', msg_metadata = None\<rparr>,
                    \<lparr>msg_id = ''msg_1700000000000'',
                     msg_content =
                       JStr ''Coordinating with specialized agents to provide comprehensive insights...'',
                     msg_role = Assistant, msg_timestamp = DateObj 1700000000000,
                     msg_agentId = Some ''central-orchestrator'',
                     msg_metadata =
                       Some \<lparr>md_type = None, md_loading = Some True, md_error = None,
                             md_orchestratorData = None\<rparr>\<rparr>],
                 ses_createdAt = DateObj 1699999990000,
                 ses_updatedAt = DateObj 1700000000850,
                 ses_agentId = ''central-orchestrator''\<rparr>],
             isLoading = False\<rparr>,
          agentStore = initialAgentStore (\<lambda>name. None),
          inputValue = []\<rparr>"
  by (simp add: send_defs demo_fetch_ok_def demo_reply_def demo_chat_value
      string_of_nat_examples)

text \<open>
  C3. The same send when the agent answers with status 500. The \<open>try\<close> block throws
  \<open>API Error: 500\<close>, the \<open>catch\<close> block takes it, the send returns and \<open>isLoading\<close> is
  false. The message of the \<open>catch\<close> block goes to \<open>updateMessage\<close> under the id no message
  has: the session shows the loading message, still loading and with no error mark, and
  no error message.
\<close>

theorem send_failure_shows_no_error_message:
  "tryBlock eng t mid Orchestrator (demo_fetch_500 url body) st = Inl (JsError ''API Error: 500'')
   \<and> map_sum id (\<lambda>ui'. (isLoading (chat ui'),
       map_option (map (\<lambda>m. (msg_role m, msg_content m, map_option md_loading (msg_metadata m),
                              map_option md_error (msg_metadata m))) \<circ> ses_messages)
         (currentSession (chat ui'))))
     (handleSendMessage eng demo_clock demo_fetch_500 demo_ui) =
   Inr (False,
        Some [(User, JStr ''What is our revenue?'', None, None),
              (Assistant,
               JStr ''Coordinating with specialized agents to provide comprehensive insights...'',
               Some (Some True), Some None)])"
  by (simp add: send_defs demo_fetch_500_def demo_chat_value string_of_nat_examples)

text \<open>
  C4. Two \<open>addMessage\<close> calls within one millisecond, as the two of a send are: the user's
  message and the loading message are different messages with the same id.
\<close>

theorem same_millisecond_same_message_id:
  "map_option (map (\<lambda>m. (msg_id m, msg_role m, msg_content m)) \<circ> ses_messages)
     (currentSession
        (addMessage 1700000000000 1700000000000 1700000000000
           \<lparr>data_content = JStr ''Analyzing your request...'', data_role = Assistant,
            data_agentId = Some ''financial-intelligence'',
            data_metadata = Some \<lparr>md_type = None, md_loading = Some True, md_error = None,
                                   md_orchestratorData = None\<rparr>\<rparr>
           (addMessage 1700000000000 1700000000000 1700000000000
              \<lparr>data_content = JStr ''Show the P&L'', data_role = User,
               data_agentId = Some ''financial-intelligence'', data_metadata = None\<rparr>
              demo_chat))) =
   Some [(''msg_1700000000000'', User, JStr ''Show the P&L''),
         (''msg_1700000000000'', Assistant, JStr ''Analyzing your request...'')]"
  by (simp add: addMessage_def newMessage_def Let_def demo_chat_value string_of_nat_examples)

section \<open>Reloading the page\<close>

lemmas iso_defs = toISOString_def utcFullYear_def utcDate_def utcMonth_def monthIndex_def
  dayOfYear_def yearOfEra_def dayOfEra_def digits2_def digits3_def digits4_def digits6_def
  digit_char_def

lemma toISOString_examples:
  "toISOString 1700000000000 = ''2023-11-14T22:13:20.000Z''"
  "toISOString 1699999990000 = ''2023-11-14T22:13:10.000Z''"
  by (simp_all add: iso_defs)

lemma find_sessionThroughJson:
  "find (\<lambda>s. ses_id s = sessionId) (map sessionThroughJson xs) =
     map_option sessionThroughJson (find (\<lambda>s. ses_id s = sessionId) xs)"
  by (induction xs) (simp_all add: sessionThroughJson_def)

lemma dateThroughJson_twice: "dateThroughJson (dateThroughJson d) = dateThroughJson d"
  by (cases d) simp_all

lemma messageThroughJson_twice:
  "messageThroughJson (messageThroughJson m) = messageThroughJson m"
  by (simp add: messageThroughJson_def dateThroughJson_twice)

lemma sessionThroughJson_twice:
  "sessionThroughJson (sessionThroughJson s) = sessionThroughJson s"
  by (simp add: sessionThroughJson_def dateThroughJson_twice messageThroughJson_twice comp_def)

text \<open>
  C5, as the code has it. After the store has been written and read back, looking a
  session up by its id gives the session that was written with every field and every
  message in its place (ids, titles, contents, roles, agent ids, metadata, the order of the
  messages), except that each date (a message's timestamp, the session's createdAt and
  updatedAt) is no longer a Date but the ISO 8601 string of the same instant. A date that
  already is a string is unchanged, so a state that was read back once is written and read
  back unchanged from then on.
\<close>

theorem reload_round_trip:
  "find (\<lambda>s. ses_id s = sessionId) (sessions (reload state)) =
     map_option sessionThroughJson (find (\<lambda>s. ses_id s = sessionId) (sessions state))
   \<and> currentSession (reload state) = map_option sessionThroughJson (currentSession state)
   \<and> ses_id (sessionThroughJson s) = ses_id s
   \<and> ses_title (sessionThroughJson s) = ses_title s
   \<and> ses_agentId (sessionThroughJson s) = ses_agentId s
   \<and> ses_createdAt (sessionThroughJson s) = dateThroughJson (ses_createdAt s)
   \<and> ses_updatedAt (sessionThroughJson s) = dateThroughJson (ses_updatedAt s)
   \<and> map msg_id (ses_messages (sessionThroughJson s)) = map msg_id (ses_messages s)
   \<and> map msg_content (ses_messages (sessionThroughJson s)) = map msg_content (ses_messages s)
   \<and> map msg_role (ses_messages (sessionThroughJson s)) = map msg_role (ses_messages s)
   \<and> map msg_agentId (ses_messages (sessionThroughJson s)) = map msg_agentId (ses_messages s)
   \<and> map msg_metadata (ses_messages (sessionThroughJson s)) = map msg_metadata (ses_messages s)
   \<and> map msg_timestamp (ses_messages (sessionThroughJson s)) =
       map (\<lambda>m. dateThroughJson (msg_timestamp m)) (ses_messages s)
   \<and> dateThroughJson (DateObj ms) = DateStr (toISOString ms)
   \<and> dateThroughJson (DateStr written) = DateStr written
   \<and> reload (reload state) = reload state"
proof -
  have "reload (reload state) = reload state"
    by (simp add: reload_def rehydrate_def throughStorage_def partialize_def
        initialChatStore_def sessionThroughJson_twice comp_def option.map_comp)
  then show ?thesis
    by (simp add: reload_def rehydrate_def throughStorage_def partialize_def
        initialChatStore_def find_sessionThroughJson sessionThroughJson_def
        messageThroughJson_def comp_def)
qed

text \<open>
  The claim as the specification words it fails on every session: the dates that were
  written as Date objects are read back as strings.
\<close>

theorem reload_dates_counterexample:
  "sessions (reload demo_chat_asked) \<noteq> sessions demo_chat_asked
   \<and> map ses_id (sessions (reload demo_chat_asked)) = [''session_1699999990000'']
   \<and> map ses_createdAt (sessions demo_chat_asked) = [DateObj 1699999990000]
   \<and> map ses_createdAt (sessions (reload demo_chat_asked)) =
       [DateStr ''2023-11-14T22:13:10.000Z'']
   \<and> concat (map (map msg_timestamp \<circ> ses_messages) (sessions demo_chat_asked)) =
       [DateObj 1700000000000]
   \<and> concat (map (map msg_timestamp \<circ> ses_messages) (sessions (reload demo_chat_asked))) =
       [DateStr ''2023-11-14T22:13:20.000Z'']"
  by (simp add: reload_def rehydrate_def throughStorage_def partialize_def initialChatStore_def
      sessionThroughJson_def messageThroughJson_def demo_chat_asked_def demo_chat_value
      addMessage_def newMessage_def Let_def string_of_nat_examples toISOString_examples)

section \<open>The classifier of the specification\<close>

text \<open>An agent is never ahead of one that is ahead of it, so the best agent is unique.\<close>

lemma beats_asym: "beats score phrase a b \<Longrightarrow> \<not> beats score phrase b a"
  by (auto simp: beats_def)

lemma is_best_unique:
  assumes "is_best score registry phrase a" and "is_best score registry phrase b"
  shows "a = b"
proof (rule ccontr)
  assume "a \<noteq> b"
  with assms have "beats score phrase a b" "beats score phrase b a"
    by (auto simp: is_best_def list_all_iff)
  then show False using beats_asym by blast
qed

lemma steps_assigned_unique:
  "steps_assigned score registry i texts ss \<Longrightarrow> steps_assigned score registry i texts ss'
   \<Longrightarrow> ss = ss'"
proof (induction score registry i texts ss arbitrary: ss' rule: steps_assigned.induct)
  case (1 score registry i)
  then show ?case by (cases ss') simp_all
next
  case (2 score registry i p phrases s ss)
  then obtain s' ss'' where ss': "ss' = s' # ss''" by (cases ss') auto
  from 2 ss' have tl: "ss = ss''" by simp
  from 2(2,3) ss' have "step_text s = step_text s'" "step_depends_on s = step_depends_on s'"
    by simp_all
  moreover from 2(2,3) ss' have "step_agent s = step_agent s'"
    by (auto simp: list_ex_iff dest: is_best_unique)
  ultimately have "s = s'" by simp
  with tl ss' show ?case by simp
qed simp_all

text \<open>
  C8. Classification is deterministic and idempotent: whatever two classifications the
  rules of section 4.1 allow for the same query and the same registry, be it in two
  different session contexts (such as before and after the first answer was appended to
  the session), they have the same type, the same target agents and the same steps. The
  tie-break is what decides between agents of equal score.
\<close>

theorem classification_deterministic:
  assumes "classifies score threshold registry query ctx1 c1"
    and "classifies score threshold registry query ctx2 c2"
  shows "cl_type c1 = cl_type c2 \<and> cl_target_agents c1 = cl_target_agents c2
       \<and> cl_steps c1 = cl_steps c2"
  using assms
  by (auto simp: classifies_def list_ex_iff split: if_splits
      dest: is_best_unique steps_assigned_unique)

text \<open>
  The function \<open>classify\<close> computes a classification the rules allow when the agents'
  ids are distinct, and it computes one whenever the registry is not empty.
\<close>

lemma beats_total:
  "ra_id a \<noteq> ra_id b \<Longrightarrow> beats score phrase a b \<or> beats score phrase b a"
  unfolding beats_def by (metis linorder_neqE)

lemma beats_trans:
  assumes "beats score phrase a b" and "beats score phrase b c"
  shows "beats score phrase a c"
proof -
  consider "score phrase b < score phrase a"
    | "score phrase a = score phrase b" "specificity b < specificity a"
    | "score phrase a = score phrase b" "specificity a = specificity b" "ra_id a < ra_id b"
    using assms(1) unfolding beats_def by blast
  then show ?thesis
  proof cases
    case 1
    with assms(2) show ?thesis unfolding beats_def by (metis less_trans)
  next
    case 2
    with assms(2) show ?thesis unfolding beats_def by (metis less_trans)
  next
    case 3
    with assms(2) show ?thesis unfolding beats_def by (metis less_trans)
  qed
qed

lemma best_of_is_best:
  assumes "distinct (map ra_id (a # bs))"
  shows "best_of score phrase a bs \<in> set (a # bs)
       \<and> (\<forall>b \<in> set (a # bs). b = best_of score phrase a bs
                                \<or> beats score phrase (best_of score phrase a bs) b)"
  using assms
proof (induction bs arbitrary: a)
  case Nil
  then show ?case by simp
next
  case (Cons b bs)
  define a' where "a' = (if beats score phrase b a then b else a)"
  define c where "c = (if beats score phrase b a then a else b)"
  define m where "m = best_of score phrase a' bs"
  from Cons.prems have ids: "ra_id a \<noteq> ra_id b" by auto
  have a'c: "beats score phrase a' c"
    using beats_total [OF ids, of score phrase] by (auto simp: a'_def c_def)
  have sets: "set (a # b # bs) = insert c (set (a' # bs))"
    by (auto simp: a'_def c_def)
  from Cons.prems have "distinct (map ra_id (a' # bs))" by (auto simp: a'_def)
  from Cons.IH [OF this]
  have m_in: "m \<in> set (a' # bs)"
    and m_best: "\<forall>x \<in> set (a' # bs). x = m \<or> beats score phrase m x"
    unfolding m_def by blast+
  from m_best have "a' = m \<or> beats score phrase m a'" by simp
  with a'c have mc: "beats score phrase m c" using beats_trans by blast
  have eq: "best_of score phrase a (b # bs) = m" by (simp add: m_def a'_def)
  have "m \<in> set (a # b # bs)" using m_in unfolding sets by blast
  moreover have "\<forall>x \<in> set (a # b # bs). x = m \<or> beats score phrase m x"
    unfolding sets using m_best mc by blast
  ultimately show ?case unfolding eq by blast
qed

lemma best_agent_is_best:
  assumes "distinct (map ra_id registry)" and "best_agent score registry phrase = Some a"
  shows "is_best score registry phrase a"
proof (cases registry)
  case Nil
  with assms(2) show ?thesis by (simp add: best_agent_def)
next
  case (Cons b bs)
  with assms(2) have a: "a = best_of score phrase b bs" by (simp add: best_agent_def)
  from assms(1) Cons have "distinct (map ra_id (b # bs))" by simp
  from best_of_is_best [OF this, of score phrase] a Cons show ?thesis
    by (simp add: is_best_def list_all_iff)
qed

lemma assign_steps_assigned:
  assumes "distinct (map ra_id registry)"
  shows "assign_steps score registry i texts = Some ss
       \<Longrightarrow> steps_assigned score registry i texts ss"
proof (induction texts arbitrary: i ss)
  case Nil
  then show ?case by simp
next
  case (Cons t texts)
  from Cons.prems obtain a rest where
    a: "best_agent score registry t = Some a"
    and rest: "assign_steps score registry (Suc i) texts = Some rest"
    and ss: "ss = \<lparr>step_text = t, step_agent = ra_id a,
                   step_depends_on = (if i = 0 then None else Some (i - 1))\<rparr> # rest"
    by (auto split: option.splits)
  from best_agent_is_best [OF assms a] have best: "is_best score registry t a" .
  then have "a \<in> set registry" by (simp add: is_best_def)
  with best have "list_ex (\<lambda>x. is_best score registry t x \<and> ra_id a = ra_id x) registry"
    by (auto simp: list_ex_iff)
  with Cons.IH [OF rest] ss show ?case by simp
qed

lemma classify_classifies:
  assumes "distinct (map ra_id registry)"
    and "classify score threshold registry query session_ctx = Some c"
  shows "classifies score threshold registry query session_ctx c"
proof -
  let ?collab = "has_conjunction query \<and> 2 \<le> length (relevant score threshold registry query)"
  let ?seq = "has_ordering query \<and> step_texts query \<noteq> []"
  consider (collab) "?collab"
    | (seq) "\<not> ?collab" "?seq"
    | (none) "\<not> ?collab" "\<not> ?seq" "relevant score threshold registry query = []"
    | (single) "\<not> ?collab" "\<not> ?seq" "relevant score threshold registry query \<noteq> []"
    by blast
  then show ?thesis
  proof cases
    case collab
    with assms(2) show ?thesis by (simp add: classify_def classifies_def)
  next
    case seq
    with assms(2) obtain ss where
      ss: "assign_steps score registry 0 (step_texts query) = Some ss"
      and c: "c = \<lparr>cl_type = Sequential, cl_target_agents = dedup (map step_agent ss),
                    cl_steps = ss\<rparr>"
      by (simp add: classify_def split: option.splits)
    from assign_steps_assigned [OF assms(1) ss]
    have "steps_assigned score registry 0 (step_texts query) ss" .
    with seq c show ?thesis by (simp add: classifies_def)
  next
    case none
    with assms(2) show ?thesis by (auto simp: classify_def classifies_def)
  next
    case single
    with assms(2) obtain a where
      a: "best_agent score registry query = Some a"
      and c: "c = \<lparr>cl_type = SingleAgent, cl_target_agents = [ra_id a], cl_steps = []\<rparr>"
      by (simp add: classify_def split: option.splits)
    from best_agent_is_best [OF assms(1) a] have best: "is_best score registry query a" .
    then have "a \<in> set registry" by (simp add: is_best_def)
    with best have "list_ex (\<lambda>x. is_best score registry query x \<and> ra_id a = ra_id x) registry"
      unfolding list_ex_iff by blast
    with single c show ?thesis by (simp add: classifies_def)
  qed
qed

lemma assign_steps_total:
  assumes "registry \<noteq> []"
  shows "\<exists>ss. assign_steps score registry i phrases = Some ss"
proof (induction phrases arbitrary: i)
  case Nil
  show ?case by simp
next
  case (Cons p phrases)
  from assms obtain a where "best_agent score registry p = Some a"
    by (cases registry) (simp_all add: best_agent_def)
  moreover from Cons obtain rest where "assign_steps score registry (Suc i) phrases = Some rest"
    by blast
  ultimately show ?case by simp
qed

lemma classify_total:
  assumes "registry \<noteq> []"
  shows "\<exists>c. classify score threshold registry query session_ctx = Some c"
proof -
  from assms obtain a where "best_agent score registry query = Some a"
    by (cases registry) (simp_all add: best_agent_def)
  moreover obtain ss where "assign_steps score registry 0 (step_texts query) = Some ss"
    using assign_steps_total [OF assms] by blast
  ultimately show ?thesis by (simp add: classify_def)
qed


text \<open>The three scenarios of section 8 of the specification.\<close>

lemmas classify_defs = classify_def has_conjunction_def has_ordering_def
  step_texts_def tokens_def word_char_def lower_char_def relevant_def keyword_overlap_def
  demo_keywords_def demo_registry_def best_agent_def beats_def specificity_def

lemma scenario_single_agent:
  "classify (keyword_overlap demo_keywords) 1 demo_registry
     ''Show me our lead generation performance'' ctx =
   Some \<lparr>cl_type = SingleAgent, cl_target_agents = [''sales_marketing''], cl_steps = []\<rparr>"
  by (simp add: classify_defs)

lemma scenario_collaborative:
  "classify (keyword_overlap demo_keywords) 1 demo_registry
     ''Analyze our financial performance and also create a marketing strategy'' ctx =
   Some \<lparr>cl_type = Collaborative,
         cl_target_agents = [''financial_intelligence'', ''sales_marketing''], cl_steps = []\<rparr>"
  by (simp add: classify_defs)

lemma scenario_sequential:
  "classify (keyword_overlap demo_keywords) 1 demo_registry
     ''First show me lead generation performance then create an email campaign'' ctx =
   Some \<lparr>cl_type = Sequential, cl_target_agents = [''sales_marketing''],
         cl_steps =
           [\<lparr>step_text = ''show me lead generation performance'',
             step_agent = ''sales_marketing'', step_depends_on = None\<rparr>,
            \<lparr>step_text = ''create an email campaign'',
             step_agent = ''sales_marketing'', step_depends_on = Some 0\<rparr>]\<rparr>"
  by (simp add: classify_defs)

lemma demo_registry_distinct: "distinct (map ra_id demo_registry)"
  by (simp add: demo_registry_def)

theorem classification_deterministic_witness:
  "classifies (keyword_overlap demo_keywords) 1 demo_registry
     ''First show me lead generation performance then create an email campaign''
     (new_session ''session_1'')
     \<lparr>cl_type = Sequential, cl_target_agents = [''sales_marketing''],
      cl_steps =
        [\<lparr>step_text = ''show me lead generation performance'',
          step_agent = ''sales_marketing'', step_depends_on = None\<rparr>,
         \<lparr>step_text = ''create an email campaign'',
          step_agent = ''sales_marketing'', step_depends_on = Some 0\<rparr>]\<rparr>
   \<and> classifies (keyword_overlap demo_keywords) 1 demo_registry
     ''First show me lead generation performance then create an email campaign''
     (append_turn
        \<lparr>turn_query = ''First show me lead generation performance then create an email campaign'',
         turn_classification =
           \<lparr>cl_type = Sequential, cl_target_agents = [''sales_marketing''],
            cl_steps =
              [\<lparr>step_text = ''show me lead generation performance'',
                step_agent = ''sales_marketing'', step_depends_on = None\<rparr>,
               \<lparr>step_text = ''create an email campaign'',
                step_agent = ''sales_marketing'', step_depends_on = Some 0\<rparr>]\<rparr>,
         turn_answer = ''Campaign drafted.''\<rparr>
        (new_session ''session_1''))
     \<lparr>cl_type = Sequential, cl_target_agents = [''sales_marketing''],
      cl_steps =
        [\<lparr>step_text = ''show me lead generation performance'',
          step_agent = ''sales_marketing'', step_depends_on = None\<rparr>,
         \<lparr>step_text = ''create an email campaign'',
          step_agent = ''sales_marketing'', step_depends_on = Some 0\<rparr>]\<rparr>"
proof -
  let ?q = "''First show me lead generation performance then create an email campaign''"
  let ?c = "\<lparr>cl_type = Sequential, cl_target_agents = [''sales_marketing''],
      cl_steps =
        [\<lparr>step_text = ''show me lead generation performance'',
          step_agent = ''sales_marketing'', step_depends_on = None\<rparr>,
         \<lparr>step_text = ''create an email campaign'',
          step_agent = ''sales_marketing'', step_depends_on = Some 0\<rparr>]\<rparr>"
  have c: "classifies (keyword_overlap demo_keywords) 1 demo_registry ?q ctx ?c" for ctx
    by (rule classify_classifies [OF demo_registry_distinct scenario_sequential])
  from classification_deterministic [OF c c] c show ?thesis by blast
qed

end
